theory Spec2Isabelle
  imports Main "HOL-Library.Word" "HOL-Library.Sublist"
begin

section \<open>JavaScript values\<close>

text \<open>
  The plugin is TypeScript running on a JavaScript engine. The model keeps what the
  claims depend on:
  \<^item> a thrown or rejected value is a \<open>thrown\<close>; a settled promise is a \<open>promise\<close>;
  \<^item> a call that has effects takes the world \<open>'w\<close> (for the plugin: the list of calls
    made to the backend so far) and ends in an \<open>outcome\<close>: it returns a value, or it
    throws synchronously;
  \<^item> numbers are \<open>int\<close> (line numbers, columns and offsets are integers far below
    \<open>2^53\<close>, where the engine's doubles are exact);
  \<^item> a string whose code units the program reads (buffer lines, completion labels,
    the prefix) is a list of UTF-16 code units, \<open>js_string\<close>; a string that is only
    compared or used as a property key (message names, paths, kinds) is a \<open>string\<close>.
\<close>

type_synonym code_unit = "16 word"
type_synonym js_string = "code_unit list"

definition str :: "string \<Rightarrow> js_string" where
  "str s = map of_char s"

datatype thrown = TypeError | URIError | StringValue string | OtherValue nat

datatype 'a promise = Resolved 'a | Rejected thrown

datatype ('v, 'w) outcome =
    Returns 'v 'w
  | Throws thrown 'w
  | CallsBuiltin string 'w
  | Unmodelled 'w

text \<open>
  \<open>CallsBuiltin k w\<close>: control passed, in world \<open>w\<close>, to the built-in function
  \<open>Object.prototype[k]\<close> with the arguments of a handler; what that built-in then does
  (some return a value that is no promise, some throw in strict mode) is not modelled.
  \<open>Unmodelled w\<close>: the dictionary's prototype had been replaced, see \<open>js_dict\<close>.
\<close>

subsection \<open>Plain objects used as dictionaries\<close>

text \<open>
  The dispatcher's three registries and the two kind tables are object literals
  (\<^verbatim>\<open>{ }\<close>) indexed by a string: \<^verbatim>\<open>this._requestHandler[requestName]\<close>. Such a read
  looks at the object's own properties and then at its prototype, \<open>Object.prototype\<close>,
  whose members are listed in \<open>object_prototype_members\<close>. All of them are functions
  but \<^verbatim>\<open>__proto__\<close>, an accessor whose getter returns the prototype object itself
  (truthy, not callable) and whose setter replaces the prototype instead of creating
  an own property. After such a replacement what a read finds depends on the
  properties of the value stored, which the model does not know: the dictionary is
  \<open>Reparented\<close> and every read but that of \<^verbatim>\<open>__proto__\<close> is \<open>Opaque\<close>.
\<close>

definition object_prototype_members :: "string list" where
  "object_prototype_members =
     [''constructor'', ''__defineGetter__'', ''__defineSetter__'', ''hasOwnProperty'',
      ''__lookupGetter__'', ''__lookupSetter__'', ''isPrototypeOf'',
      ''propertyIsEnumerable'', ''toString'', ''valueOf'', ''__proto__'',
      ''toLocaleString'']"

datatype 'a js_dict = Plain "string \<rightharpoonup> 'a" | Reparented 'a

datatype 'a js_prop = Value 'a | Inherited string | Undefined | Opaque

fun js_get :: "'a js_dict \<Rightarrow> string \<Rightarrow> 'a js_prop" where
  "js_get (Plain m) k =
     (case m k of
        Some v \<Rightarrow> Value v
      | None \<Rightarrow> if k \<in> set object_prototype_members then Inherited k else Undefined)"
| "js_get (Reparented p) k = (if k = ''__proto__'' then Value p else Opaque)"

fun js_set :: "'a js_dict \<Rightarrow> string \<Rightarrow> 'a \<Rightarrow> 'a js_dict" where
  "js_set (Plain m) k v = (if k = ''__proto__'' then Reparented v else Plain (m(k \<mapsto> v)))"
| "js_set (Reparented p) k v = (if k = ''__proto__'' then Reparented v else Reparented p)"

definition empty_dict :: "'a js_dict" where
  "empty_dict = Plain Map.empty"

section \<open>The dispatcher: \<open>LightweightLanguageClient\<close>\<close>

text \<open>
  A request handler is \<^verbatim>\<open>(requestName, payload) => Promise<any>\<close>, a notification handler
  \<^verbatim>\<open>(notificationName, payload) => void\<close>; both may have effects and may throw. A
  subscription is an \<^verbatim>\<open>Oni.Event\<close>, represented by its \<^verbatim>\<open>dispatch\<close> method.
\<close>

type_synonym ('p, 'r, 'w) RequestHandler = "string \<Rightarrow> 'p \<Rightarrow> 'w \<Rightarrow> ('r promise, 'w) outcome"
type_synonym ('p, 'w) NotificationHandler = "string \<Rightarrow> 'p \<Rightarrow> 'w \<Rightarrow> (unit, 'w) outcome"
type_synonym ('p, 'w) Event = "'p \<Rightarrow> 'w \<Rightarrow> (unit, 'w) outcome"

record ('p, 'r, 'w) LightweightLanguageClient =
  subscriptions :: "('p, 'w) Event js_dict"
  requestHandler :: "('p, 'r, 'w) RequestHandler js_dict"
  notificationHandler :: "('p, 'w) NotificationHandler js_dict"

definition new_client :: "('p, 'r, 'w) LightweightLanguageClient" where
  "new_client =
     \<lparr>subscriptions = empty_dict, requestHandler = empty_dict, notificationHandler = empty_dict\<rparr>"

definition subscribe ::
  "('p, 'r, 'w) LightweightLanguageClient \<Rightarrow> string \<Rightarrow> ('p, 'w) Event
     \<Rightarrow> ('p, 'r, 'w) LightweightLanguageClient" where
  "subscribe c notificationName evt =
     c\<lparr>subscriptions := js_set (subscriptions c) notificationName evt\<rparr>"

definition sendRequest ::
  "('p, 'r, 'w) LightweightLanguageClient \<Rightarrow> string \<Rightarrow> string \<Rightarrow> 'p \<Rightarrow> 'w
     \<Rightarrow> ('r promise, 'w) outcome" where
  "sendRequest c fileName requestName protocolArguments w =
     (case js_get (requestHandler c) requestName of
        Value handler \<Rightarrow> handler requestName protocolArguments w
      | Undefined \<Rightarrow> Returns (Rejected (StringValue ''Not implemented'')) w
      | Inherited k \<Rightarrow> if k = ''__proto__'' then Throws TypeError w else CallsBuiltin k w
      | Opaque \<Rightarrow> Unmodelled w)"

definition sendNotification ::
  "('p, 'r, 'w) LightweightLanguageClient \<Rightarrow> string \<Rightarrow> string \<Rightarrow> 'p \<Rightarrow> 'w
     \<Rightarrow> (unit, 'w) outcome" where
  "sendNotification c fileName notificationName protocolArguments w =
     (case js_get (notificationHandler c) notificationName of
        Value notifier \<Rightarrow> notifier notificationName protocolArguments w
      | Undefined \<Rightarrow> Returns () w
      | Inherited k \<Rightarrow> if k = ''__proto__'' then Throws TypeError w else CallsBuiltin k w
      | Opaque \<Rightarrow> Unmodelled w)"

definition handleRequest ::
  "('p, 'r, 'w) LightweightLanguageClient \<Rightarrow> string \<Rightarrow> ('p, 'r, 'w) RequestHandler
     \<Rightarrow> ('p, 'r, 'w) LightweightLanguageClient" where
  "handleRequest c requestName handler =
     c\<lparr>requestHandler := js_set (requestHandler c) requestName handler\<rparr>"

definition handleNotification ::
  "('p, 'r, 'w) LightweightLanguageClient \<Rightarrow> string \<Rightarrow> ('p, 'w) NotificationHandler
     \<Rightarrow> ('p, 'r, 'w) LightweightLanguageClient" where
  "handleNotification c notificationName notificationHandler' =
     c\<lparr>notificationHandler := js_set (notificationHandler c) notificationName notificationHandler'\<rparr>"

text \<open>
  \<^verbatim>\<open>notify\<close> calls \<^verbatim>\<open>notifierEvent.dispatch(payload)\<close> on whatever truthy value the read
  found. No member of \<open>Object.prototype\<close> has a \<^verbatim>\<open>dispatch\<close> property, so for an
  inherited member the call is a call of \<^verbatim>\<open>undefined\<close>: a \<open>TypeError\<close>.
\<close>

definition notify ::
  "('p, 'r, 'w) LightweightLanguageClient \<Rightarrow> string \<Rightarrow> 'p \<Rightarrow> 'w \<Rightarrow> (unit, 'w) outcome" where
  "notify c notificationName payload w =
     (case js_get (subscriptions c) notificationName of
        Value notifierEvent \<Rightarrow> notifierEvent payload w
      | Undefined \<Rightarrow> Returns () w
      | Inherited k \<Rightarrow> Throws TypeError w
      | Opaque \<Rightarrow> Unmodelled w)"

section \<open>Editor and backend data\<close>

text \<open>
  \<open>Oni.EventContext\<close> and the two buffer events, with the fields the handlers read.
  \<^verbatim>\<open>!args.eventContext.bufferFullPath\<close> holds for the empty path.
\<close>

record EventContext =
  bufferFullPath :: string
  line :: int
  column :: int

record UpdateContext =
  eventContext :: EventContext

record BufferUpdateContext = UpdateContext +
  bufferLines :: "js_string list"

record IncrementalBufferUpdateContext = UpdateContext +
  bufferLine :: js_string
  lineNumber :: int

text \<open>The calls the plugin makes on \<open>TypeScriptServerHost\<close>, in the order made.
  \<open>UpdateFileThrottled\<close> is a call of the function that
  \<^verbatim>\<open>Oni.helpers.throttle(..., 50)\<close> returns: whether and when it reaches
  \<^verbatim>\<open>host.updateFile\<close> is the throttle's business.\<close>

datatype host_call =
    OpenFile string
  | UpdateFileThrottled string js_string
  | ChangeLineInFile string int js_string
  | GetQuickInfo string int int
  | GetCompletions string int int js_string

subsection \<open>Arrays and strings read by index\<close>

text \<open>
  \<open>lastBuffer\<close> is a JavaScript array of strings: its integer-keyed properties and its
  \<open>length\<close>. A read outside them is \<^verbatim>\<open>undefined\<close> (\<open>None\<close>); a write at an array index
  beyond the end extends the array (the indices between stay holes); a write at another
  integer (a negative one) creates a property and leaves \<open>length\<close> alone.
\<close>

record js_array =
  elems :: "int \<rightharpoonup> js_string"
  len :: nat

definition array_of_list :: "js_string list \<Rightarrow> js_array" where
  "array_of_list xs =
     \<lparr>elems = (\<lambda>i. if 0 \<le> i \<and> i < int (length xs) then Some (xs ! nat i) else None),
      len = length xs\<rparr>"

definition array_set :: "js_array \<Rightarrow> int \<Rightarrow> js_string \<Rightarrow> js_array" where
  "array_set a i v =
     \<lparr>elems = (elems a)(i \<mapsto> v),
      len = (if 0 \<le> i \<and> i < 4294967295 then max (len a) (nat i + 1) else len a)\<rparr>"

text \<open>\<^verbatim>\<open>s[i]\<close> on a string: the code unit at \<open>i\<close>, or \<^verbatim>\<open>undefined\<close> outside the string.\<close>

definition char_at :: "js_string \<Rightarrow> int \<Rightarrow> code_unit option" where
  "char_at s i = (if 0 \<le> i \<and> i < int (length s) then Some (s ! nat i) else None)"

text \<open>\<^verbatim>\<open>currentLine[i]\<close> where \<open>currentLine\<close> itself may be \<^verbatim>\<open>undefined\<close>: reading a
  property of \<^verbatim>\<open>undefined\<close> throws.\<close>

definition index_line :: "js_string option \<Rightarrow> int \<Rightarrow> thrown + code_unit option" where
  "index_line currentLine i =
     (case currentLine of None \<Rightarrow> Inl TypeError | Some s \<Rightarrow> Inr (char_at s i))"

text \<open>
  \<^verbatim>\<open>currentCharacter.match(/[_a-z]/i)\<close> on a string of one code unit. The pattern has no
  \<^verbatim>\<open>u\<close> flag, so case folding maps no code unit above 127 to an ASCII letter: the units
  matched are \<open>A\<close> to \<open>Z\<close>, \<open>a\<close> to \<open>z\<close> and the underscore.
\<close>

definition matches_identifier :: "code_unit \<Rightarrow> bool" where
  "matches_identifier c \<longleftrightarrow> c = 0x5F \<or> (0x41 \<le> c \<and> c \<le> 0x5A) \<or> (0x61 \<le> c \<and> c \<le> 0x7A)"

definition full_stop :: code_unit where
  "full_stop = 0x2E"

text \<open>\<^verbatim>\<open>lines.join(sep)\<close>.\<close>

fun join :: "js_string \<Rightarrow> js_string list \<Rightarrow> js_string" where
  "join sep [] = []"
| "join sep [x] = x"
| "join sep (x # y # zs) = x @ sep @ join sep (y # zs)"

text \<open>\<^verbatim>\<open>name.indexOf(p)\<close>: the least position at which \<open>p\<close> occurs in \<open>name\<close>, or \<open>-1\<close>.\<close>

fun indexOf :: "js_string \<Rightarrow> js_string \<Rightarrow> int" where
  "indexOf s p =
     (if prefix p s then 0
      else case s of
             [] \<Rightarrow> -1
           | _ # t \<Rightarrow> (let i = indexOf t p in if i < 0 then -1 else i + 1))"

text \<open>\<^verbatim>\<open>p.then(f)\<close> for a callback that does not throw.\<close>

fun promise_then :: "'a promise \<Rightarrow> ('a \<Rightarrow> 'b) \<Rightarrow> 'b promise" where
  "promise_then (Resolved x) f = Resolved (f x)"
| "promise_then (Rejected r) f = Rejected r"

section \<open>Kind tables\<close>

text \<open>The members of \<^verbatim>\<open>types.CompletionItemKind\<close> and \<^verbatim>\<open>types.SymbolKind\<close> the tables use.
  All are positive numbers, so all are truthy.\<close>

datatype CompletionItemKind =
    CK_Text | CK_Method | CK_Function | CK_Constructor | CK_Variable | CK_Class
  | CK_Interface | CK_Module | CK_Property | CK_Unit | CK_Value | CK_Keyword
  | CK_Color | CK_File | CK_Reference

datatype SymbolKind =
    SK_Variable | SK_Constant | SK_Package | SK_Method | SK_Function | SK_Property
  | SK_Class | SK_Interface

definition typeScriptKindToCompletionKind :: "CompletionItemKind js_dict" where
  "typeScriptKindToCompletionKind = Plain (map_of
     [(''let'', CK_Variable), (''interface'', CK_Interface), (''alias'', CK_Reference),
      (''color'', CK_Color), (''const'', CK_Value), (''constructor'', CK_Constructor),
      (''class'', CK_Class), (''type'', CK_Class), (''directory'', CK_File),
      (''file'', CK_File), (''script'', CK_File), (''var'', CK_Variable),
      (''property'', CK_Property), (''parameter'', CK_Variable), (''module'', CK_Module),
      (''external module name'', CK_Module), (''method'', CK_Method),
      (''function'', CK_Function), (''unit'', CK_Unit), (''keyword'', CK_Keyword),
      (''text'', CK_Text)])"

text \<open>The result of the completion kind lookup: a kind, \<^verbatim>\<open>null\<close>, or a member inherited
  from \<open>Object.prototype\<close> (truthy, so returned as it is).\<close>

datatype completion_kind = Kind CompletionItemKind | Null | InheritedMember string

definition convertTypeScriptKindToCompletionItemKind :: "string \<Rightarrow> completion_kind" where
  "convertTypeScriptKindToCompletionItemKind kind =
     (if kind = [] then Null
      else case js_get typeScriptKindToCompletionKind kind of
             Value v \<Rightarrow> Kind v
           | Inherited k \<Rightarrow> InheritedMember k
           | Undefined \<Rightarrow> Null
           | Opaque \<Rightarrow> Null)"

definition kindToHighlightGroup :: "SymbolKind js_dict" where
  "kindToHighlightGroup = Plain (map_of
     [(''let'', SK_Variable), (''const'', SK_Constant), (''var'', SK_Variable),
      (''alias'', SK_Package), (''function'', SK_Method), (''method'', SK_Function),
      (''property'', SK_Property), (''class'', SK_Class), (''interface'', SK_Interface)])"

section \<open>Completion: \<open>getCompletions\<close>\<close>

record CompletionEntry =
  name :: js_string
  kind :: string

record CompletionItem =
  label :: js_string
  itemKind :: completion_kind

record CompletionResult =
  base :: "js_string option"
  completions :: "CompletionItem list"

text \<open>The \<^verbatim>\<open>while (col >= 0)\<close> loop: it returns the position it stopped at and the prefix,
  or the error thrown by reading \<^verbatim>\<open>currentLine[col]\<close> of an undefined line or by calling
  \<^verbatim>\<open>match\<close> on an undefined character.\<close>

function prefix_scan :: "js_string option \<Rightarrow> int \<Rightarrow> js_string \<Rightarrow> thrown + (int \<times> js_string)" where
  "prefix_scan currentLine col currentPrefix =
     (if col \<ge> 0 then
        (case index_line currentLine col of
           Inl e \<Rightarrow> Inl e
         | Inr None \<Rightarrow> Inl TypeError
         | Inr (Some currentCharacter) \<Rightarrow>
             if \<not> matches_identifier currentCharacter then Inr (col, currentPrefix)
             else prefix_scan currentLine (col - 1) (currentCharacter # currentPrefix))
      else Inr (col, currentPrefix))"
  by pat_completeness auto
termination
  by (relation "measure (\<lambda>(currentLine, col, currentPrefix). nat (col + 1))") auto

definition completion_filter :: "js_string \<Rightarrow> CompletionEntry list \<Rightarrow> CompletionItem list" where
  "completion_filter currentPrefix val =
     map (\<lambda>v. \<lparr>label = name v, itemKind = convertTypeScriptKindToCompletionItemKind (kind v)\<rparr>)
       (filter (\<lambda>v. indexOf (name v) currentPrefix = 0 \<or> length currentPrefix = 0) val)"

definition getCompletions ::
  "(string \<Rightarrow> int \<Rightarrow> int \<Rightarrow> js_string \<Rightarrow> CompletionEntry list promise) \<Rightarrow> js_array
     \<Rightarrow> EventContext \<Rightarrow> host_call list \<Rightarrow> (CompletionResult promise, host_call list) outcome" where
  "getCompletions host lastBuffer textDocumentPosition w =
     (if column textDocumentPosition \<le> 1
      then Returns (Resolved \<lparr>base = None, completions = []\<rparr>) w
      else
        let currentLine = elems lastBuffer (line textDocumentPosition - 1) in
        case prefix_scan currentLine (column textDocumentPosition - 2) [] of
          Inl e \<Rightarrow> Throws e w
        | Inr (basePos, currentPrefix) \<Rightarrow>
            (case (if length currentPrefix = 0
                   then map_sum id (\<lambda>c. c \<noteq> Some full_stop) (index_line currentLine basePos)
                   else Inr False) of
               Inl e \<Rightarrow> Throws e w
             | Inr True \<Rightarrow> Returns (Resolved \<lparr>base = Some currentPrefix, completions = []\<rparr>) w
             | Inr False \<Rightarrow>
                 Returns
                   (promise_then
                      (host (bufferFullPath textDocumentPosition) (line textDocumentPosition)
                         (column textDocumentPosition) currentPrefix)
                      (\<lambda>val. \<lparr>base = Some currentPrefix,
                               completions = completion_filter currentPrefix val\<rparr>))
                   (w @ [GetCompletions (bufferFullPath textDocumentPosition)
                           (line textDocumentPosition) (column textDocumentPosition)
                           currentPrefix])))"

section \<open>Symbol tree: \<open>getHighlightsFromNavTree\<close>\<close>

text \<open>
  \<open>protocol.NavigationTree\<close>: \<open>NavigationTree text kind spans childItems\<close>. The protocol
  declares \<open>spans\<close> as required and \<open>childItems\<close> as optional; both are options here, so
  that a node that lacks \<open>spans\<close> can be written down. A span is a pair of locations.
\<close>

type_synonym TextSpan = "(int \<times> int) \<times> (int \<times> int)"

datatype NavigationTree =
  NavigationTree js_string string "TextSpan list option" "NavigationTree list option"

record Highlight =
  highlightKind :: "SymbolKind js_prop"
  token :: js_string

text \<open>
  The accumulator \<open>highlights\<close> is mutated in place, so the function returns it together
  with the error that ended the traversal, if one did: \<^verbatim>\<open>spans.forEach\<close> on an absent
  \<open>spans\<close> is a call on \<^verbatim>\<open>undefined\<close>. \<open>visit_item\<close> is the body of the outer
  \<^verbatim>\<open>forEach\<close>, \<open>forEach_items\<close> the loop.
\<close>

fun visit_item :: "NavigationTree \<Rightarrow> Highlight list \<Rightarrow> Highlight list \<times> thrown option"
  and forEach_items :: "NavigationTree list \<Rightarrow> Highlight list \<Rightarrow> Highlight list \<times> thrown option"
where
  "visit_item (NavigationTree text' kind' spans childItems) highlights =
     (case spans of
        None \<Rightarrow> (highlights, Some TypeError)
      | Some ss \<Rightarrow>
          (let highlights' = highlights @
                 map (\<lambda>s. \<lparr>highlightKind = js_get kindToHighlightGroup kind', token = text'\<rparr>) ss
           in case childItems of
                None \<Rightarrow> (highlights', None)
              | Some cs \<Rightarrow> forEach_items cs highlights'))"
| "forEach_items [] highlights = (highlights, None)"
| "forEach_items (item # items) highlights =
     (case visit_item item highlights of
        (highlights', None) \<Rightarrow> forEach_items items highlights'
      | (highlights', Some e) \<Rightarrow> (highlights', Some e))"

definition getHighlightsFromNavTree ::
  "NavigationTree list option \<Rightarrow> Highlight list \<Rightarrow> Highlight list \<times> thrown option" where
  "getHighlightsFromNavTree navTree highlights =
     (case navTree of None \<Rightarrow> (highlights, None) | Some items \<Rightarrow> forEach_items items highlights)"

text \<open>
  The traversal in the words of the specification: the entries of a node, one per
  span, then those of its children in order. A node without \<open>spans\<close> or \<open>childItems\<close>
  has none of them.
\<close>

fun preorder :: "NavigationTree \<Rightarrow> Highlight list" where
  "preorder (NavigationTree text' kind' spans childItems) =
     map (\<lambda>s. \<lparr>highlightKind = js_get kindToHighlightGroup kind', token = text'\<rparr>)
       (case spans of None \<Rightarrow> [] | Some ss \<Rightarrow> ss)
     @ concat (map preorder (case childItems of None \<Rightarrow> [] | Some cs \<Rightarrow> cs))"

fun spans_present :: "NavigationTree \<Rightarrow> bool" where
  "spans_present (NavigationTree text' kind' spans childItems) =
     (spans \<noteq> None \<and> list_all spans_present (case childItems of None \<Rightarrow> [] | Some cs \<Rightarrow> cs))"

text \<open>
  What a traversal that stops at the first node without \<open>spans\<close> has emitted: the nodes
  of the forest in pre-order (a node, then the nodes of its children in order), up to
  the first one that lacks \<open>spans\<close>, each with one entry per span.
\<close>

fun nodes_preorder :: "NavigationTree \<Rightarrow> NavigationTree list" where
  "nodes_preorder (NavigationTree text' kind' spans childItems) =
     NavigationTree text' kind' spans childItems
       # concat (map nodes_preorder (case childItems of None \<Rightarrow> [] | Some cs \<Rightarrow> cs))"

fun has_spans :: "NavigationTree \<Rightarrow> bool" where
  "has_spans (NavigationTree text' kind' spans childItems) = (spans \<noteq> None)"

fun own_entries :: "NavigationTree \<Rightarrow> Highlight list" where
  "own_entries (NavigationTree text' kind' spans childItems) =
     map (\<lambda>s. \<lparr>highlightKind = js_get kindToHighlightGroup kind', token = text'\<rparr>)
       (case spans of None \<Rightarrow> [] | Some ss \<Rightarrow> ss)"

definition entries_before_fault :: "NavigationTree list \<Rightarrow> Highlight list" where
  "entries_before_fault forest =
     concat (map own_entries (takeWhile has_spans (concat (map nodes_preorder forest))))"

section \<open>Diagnostics: the \<open>semanticDiag\<close> handler\<close>

record Location =
  loc_line :: int
  loc_offset :: int

text \<open>A backend diagnostic: \<open>start\<close>, \<open>end\<close>, \<open>text\<close> and the backend's \<open>category\<close>
  (its severity), which the handler never reads.\<close>

record Diagnostic =
  diag_start :: Location
  diag_end :: Location
  diag_text :: js_string
  diag_category :: string

record DiagnosticEvent =
  event_file :: string
  diagnostics :: "Diagnostic list option"

record Position =
  pos_line :: int
  character :: int

record Range =
  range_start :: Position
  range_end :: Position

definition Position_create :: "int \<Rightarrow> int \<Rightarrow> Position" where
  "Position_create l c = \<lparr>pos_line = l, character = c\<rparr>"

definition Range_create :: "Position \<Rightarrow> Position \<Rightarrow> Range" where
  "Range_create s e = \<lparr>range_start = s, range_end = e\<rparr>"

text \<open>An entry handed to \<^verbatim>\<open>Oni.diagnostics.setErrors\<close>; its \<open>type\<close> is \<^verbatim>\<open>null\<close>.\<close>

record OniError =
  err_type :: "unit option"
  message :: js_string
  err_range :: Range
  severity :: int

datatype oni_call = SetErrors string string "OniError list"

definition convert_diagnostic :: "Diagnostic \<Rightarrow> OniError" where
  "convert_diagnostic d =
     (let startPosition = Position_create (loc_line (diag_start d) - 1) (loc_offset (diag_start d));
          endPosition = Position_create (loc_line (diag_end d) - 1) (loc_offset (diag_end d));
          range' = Range_create startPosition endPosition
      in \<lparr>err_type = None, message = diag_text d, err_range = range', severity = 1\<rparr>)"

definition semanticDiag :: "DiagnosticEvent \<Rightarrow> oni_call" where
  "semanticDiag ev =
     (let fileName = event_file ev;
          diags = (case diagnostics ev of None \<Rightarrow> [] | Some ds \<Rightarrow> ds);
          errors = map convert_diagnostic diags
      in SetErrors ''typescript-compiler'' fileName errors)"

section \<open>Buffer events\<close>

text \<open>
  The state the two handlers share: the array \<open>lastBuffer\<close> and the calls made to the
  backend. \<^verbatim>\<open>const lastOpenFile = null\<close> is a constant of the closure, not state.
\<close>

record plugin_state =
  lastBuffer :: js_array
  host_calls :: "host_call list"

definition lastOpenFile :: "string option" where
  "lastOpenFile = None"

definition on_buffer_update :: "js_string \<Rightarrow> plugin_state \<Rightarrow> BufferUpdateContext \<Rightarrow> plugin_state" where
  "on_buffer_update EOL s args =
     (if bufferFullPath (eventContext args) = [] then s
      else
        let s1 = (if lastOpenFile \<noteq> Some (bufferFullPath (eventContext args))
                  then s\<lparr>host_calls := host_calls s @ [OpenFile (bufferFullPath (eventContext args))]\<rparr>
                  else s);
            s2 = s1\<lparr>lastBuffer := array_of_list (bufferLines args)\<rparr>
        in s2\<lparr>host_calls := host_calls s2 @
                 [UpdateFileThrottled (bufferFullPath (eventContext args))
                    (join EOL (bufferLines args))]\<rparr>)"

definition on_buffer_update_incremental ::
  "plugin_state \<Rightarrow> IncrementalBufferUpdateContext \<Rightarrow> plugin_state" where
  "on_buffer_update_incremental s args =
     (if bufferFullPath (eventContext args) = [] then s
      else
        let changedLine = bufferLine args;
            lineNumber' = lineNumber args;
            s1 = s\<lparr>lastBuffer := array_set (lastBuffer s) (lineNumber' - 1) changedLine\<rparr>
        in s1\<lparr>host_calls := host_calls s1 @
                 [ChangeLineInFile (bufferFullPath (eventContext args)) lineNumber' changedLine]\<rparr>)"

text \<open>
  The buffer a positional query on document \<open>p\<close> is answered from: \<open>getCompletions\<close>
  reads \<open>lastBuffer\<close> whatever the \<open>bufferFullPath\<close> of the query. It is the only
  mirror the plugin keeps, and it serves as the mirror of every document.
\<close>

definition mirror_of :: "plugin_state \<Rightarrow> string \<Rightarrow> js_array" where
  "mirror_of s p = lastBuffer s"

section \<open>Hover: \<open>getQuickInfo\<close>\<close>

text \<open>
  \<^verbatim>\<open>uri.split(prefix)[1]\<close>: the text between the first and the second occurrence of
  the prefix, \<^verbatim>\<open>undefined\<close> when the prefix does not occur.
\<close>

fun after_first :: "string \<Rightarrow> string \<Rightarrow> string option" where
  "after_first sep s =
     (if prefix sep s then Some (drop (length sep) s)
      else case s of [] \<Rightarrow> None | _ # t \<Rightarrow> after_first sep t)"

fun before_first :: "string \<Rightarrow> string \<Rightarrow> string" where
  "before_first sep s =
     (if prefix sep s then []
      else case s of [] \<Rightarrow> [] | c # t \<Rightarrow> c # before_first sep t)"

definition split_second :: "string \<Rightarrow> string \<Rightarrow> string option" where
  "split_second sep s = map_option (before_first sep) (after_first sep s)"

definition getFilePrefix :: "string \<Rightarrow> string" where
  "getFilePrefix platform = (if platform = ''win32'' then ''file:///'' else ''file://'')"

text \<open>
  \<open>decodeURIComponent\<close> is the engine's; it is a parameter, and it may throw a
  \<open>URIError\<close>. Given \<^verbatim>\<open>undefined\<close> it decodes the string \<^verbatim>\<open>"undefined"\<close>.
\<close>

definition unwrapFileUriPath ::
  "(string \<Rightarrow> thrown + string) \<Rightarrow> string \<Rightarrow> string \<Rightarrow> thrown + string" where
  "unwrapFileUriPath decodeURIComponent platform uri =
     decodeURIComponent
       (case split_second (getFilePrefix platform) uri of None \<Rightarrow> ''undefined'' | Some s \<Rightarrow> s)"

record HoverParams =
  textDocument_uri :: string
  position :: Position

record QuickInfoResponse =
  displayString :: js_string
  documentation :: js_string

record Hover =
  contents :: "js_string list"

text \<open>
  \<open>getQuickInfo\<close> is an \<^verbatim>\<open>async\<close> function: whatever is thrown inside it rejects the
  promise it returns. It awaits the backend's answer.
\<close>

definition getQuickInfo ::
  "(string \<Rightarrow> thrown + string) \<Rightarrow> string \<Rightarrow> (string \<Rightarrow> int \<Rightarrow> int \<Rightarrow> QuickInfoResponse promise)
     \<Rightarrow> string \<Rightarrow> HoverParams \<Rightarrow> host_call list \<Rightarrow> (Hover promise, host_call list) outcome" where
  "getQuickInfo decodeURIComponent platform host protocolName payload w =
     (case unwrapFileUriPath decodeURIComponent platform (textDocument_uri payload) of
        Inl e \<Rightarrow> Returns (Rejected e) w
      | Inr filePath \<Rightarrow>
          Returns
            (promise_then
               (host filePath (pos_line (position payload) + 1) (character (position payload) + 1))
               (\<lambda>val. \<lparr>contents = [displayString val, documentation val]\<rparr>))
            (w @ [GetQuickInfo filePath (pos_line (position payload) + 1)
                    (character (position payload) + 1)]))"

text \<open>The request side of the client as \<open>activate\<close> sets it up:
  \<^verbatim>\<open>lightweightLanguageClient.handleRequest("textDocument/hover", getQuickInfo)\<close>.\<close>

definition hover_client ::
  "(string \<Rightarrow> thrown + string) \<Rightarrow> string \<Rightarrow> (string \<Rightarrow> int \<Rightarrow> int \<Rightarrow> QuickInfoResponse promise)
     \<Rightarrow> (HoverParams, Hover, host_call list) LightweightLanguageClient" where
  "hover_client decodeURIComponent platform host =
     handleRequest new_client ''textDocument/hover'' (getQuickInfo decodeURIComponent platform host)"

text \<open>The state at activation: \<^verbatim>\<open>let lastBuffer: string[] = []\<close> and no call made.\<close>

definition initial_state :: plugin_state where
  "initial_state = \<lparr>lastBuffer = array_of_list [], host_calls = []\<rparr>"

text \<open>
  The recursive equations of the loops are unfolded by hand in the proofs (\<open>subst\<close>),
  never by the simplifier.
\<close>

declare indexOf.simps [simp del] prefix_scan.simps [simp del]
  after_first.simps [simp del] before_first.simps [simp del]

section \<open>Example inputs\<close>

text \<open>Concrete backends, buffers, events and trees, for the instances below.\<close>

definition example_entries :: "CompletionEntry list" where
  "example_entries =
     [\<lparr>name = str ''bar'', kind = ''method''\<rparr>, \<lparr>name = str ''foo'', kind = ''var''\<rparr>,
      \<lparr>name = str ''abba'', kind = ''let''\<rparr>, \<lparr>name = str ''ba'', kind = ''unknown''\<rparr>]"

definition example_completion_host ::
  "string \<Rightarrow> int \<Rightarrow> int \<Rightarrow> js_string \<Rightarrow> CompletionEntry list promise" where
  "example_completion_host p l c x = Resolved example_entries"

definition example_position :: "int \<Rightarrow> int \<Rightarrow> EventContext" where
  "example_position l c = \<lparr>bufferFullPath = ''a.ts'', line = l, column = c\<rparr>"

definition example_diagnostics :: DiagnosticEvent where
  "example_diagnostics =
     \<lparr>event_file = ''a.ts'',
      diagnostics = Some [\<lparr>diag_start = \<lparr>loc_line = 5, loc_offset = 3\<rparr>,
                           diag_end = \<lparr>loc_line = 6, loc_offset = 9\<rparr>,
                           diag_text = str ''Cannot find name'',
                           diag_category = ''warning''\<rparr>]\<rparr>"

definition example_span :: TextSpan where
  "example_span = ((1, 1), (1, 10))"

definition class_with_method :: NavigationTree where
  "class_with_method =
     NavigationTree (str ''Foo'') ''class'' (Some [example_span])
       (Some [NavigationTree (str ''bar'') ''method'' (Some [example_span]) None])"

definition class_with_constructor :: NavigationTree where
  "class_with_constructor =
     NavigationTree (str ''Foo'') ''class'' (Some [example_span])
       (Some [NavigationTree (str ''constructor'') ''constructor'' (Some [example_span]) None])"

definition forest_without_spans :: "NavigationTree list" where
  "forest_without_spans =
     [NavigationTree (str ''Foo'') ''class'' None None,
      NavigationTree (str ''bar'') ''method'' (Some [example_span]) None]"

text \<open>A forest whose first node has a span and whose first grandchild lacks \<open>spans\<close>.\<close>

definition forest_fault_in_child :: "NavigationTree list" where
  "forest_fault_in_child =
     [NavigationTree (str ''Foo'') ''class'' (Some [example_span])
        (Some [NavigationTree (str ''bar'') ''method'' None None,
               NavigationTree (str ''baz'') ''property'' (Some [example_span]) None]),
      NavigationTree (str ''qux'') ''var'' (Some [example_span]) None]"

definition example_full_update :: BufferUpdateContext where
  "example_full_update =
     \<lparr>eventContext = \<lparr>bufferFullPath = ''a.ts'', line = 1, column = 1\<rparr>,
      bufferLines = [str ''x'']\<rparr>"

definition example_line_update :: IncrementalBufferUpdateContext where
  "example_line_update =
     \<lparr>eventContext = \<lparr>bufferFullPath = ''b.ts'', line = 1, column = 1\<rparr>,
      bufferLine = str ''y'', lineNumber = 1\<rparr>"

definition example_quick_info_host :: "string \<Rightarrow> int \<Rightarrow> int \<Rightarrow> QuickInfoResponse promise" where
  "example_quick_info_host p l c =
     Resolved \<lparr>displayString = str ''const x: number'', documentation = str ''a number''\<rparr>"

definition example_hover :: HoverParams where
  "example_hover =
     \<lparr>textDocument_uri = ''file:///a.ts'', position = \<lparr>pos_line = 0, character = 0\<rparr>\<rparr>"

definition identity_decode :: "string \<Rightarrow> thrown + string" where
  "identity_decode s = Inr s"

section \<open>Helper lemmas\<close>

lemma indexOf_zero: "indexOf s p = 0 \<longleftrightarrow> prefix p s"
  by (subst indexOf.simps) (auto split: list.splits simp: Let_def)

lemma prefix_scan_Some:
  "n \<le> length l \<Longrightarrow>
   prefix_scan (Some l) (int n - 1) acc =
     Inr (int n - 1 - int (length (takeWhile matches_identifier (rev (take n l)))),
          rev (takeWhile matches_identifier (rev (take n l))) @ acc)"
proof (induction n arbitrary: acc)
  case 0
  then show ?case by (subst prefix_scan.simps) simp
next
  case (Suc m)
  then have m: "m < length l" by simp
  have tk: "take (Suc m) l = take m l @ [l ! m]"
    using m by (simp add: take_Suc_conv_app_nth)
  show ?case
  proof (cases "matches_identifier (l ! m)")
    case False
    then show ?thesis using m tk
      by (subst prefix_scan.simps) (simp add: index_line_def char_at_def)
  next
    case True
    have "prefix_scan (Some l) (int (Suc m) - 1) acc = prefix_scan (Some l) (int m - 1) (l ! m # acc)"
      using m True by (subst prefix_scan.simps) (simp add: index_line_def char_at_def)
    also have "\<dots> = Inr (int m - 1 - int (length (takeWhile matches_identifier (rev (take m l)))),
          rev (takeWhile matches_identifier (rev (take m l))) @ (l ! m # acc))"
      using Suc.IH[of "l ! m # acc"] m by simp
    finally show ?thesis using True tk by simp
  qed
qed

lemma prefix_scan_line:
  assumes "- 1 \<le> col" and "nat (col + 1) \<le> length l"
  shows "prefix_scan (Some l) col acc =
     Inr (col - int (length (takeWhile matches_identifier (rev (take (nat (col + 1)) l)))),
          rev (takeWhile matches_identifier (rev (take (nat (col + 1)) l))) @ acc)"
proof -
  have "int (nat (col + 1)) - 1 = col" using assms(1) by simp
  with prefix_scan_Some[OF assms(2), of acc] show ?thesis by simp
qed

lemma completion_filter_prefix:
  "completion_filter p val =
     map (\<lambda>v. \<lparr>label = name v, itemKind = convertTypeScriptKindToCompletionItemKind (kind v)\<rparr>)
       (filter (\<lambda>v. prefix p (name v)) val)"
proof -
  have "(\<lambda>v::CompletionEntry. indexOf (name v) p = 0 \<or> length p = 0) = (\<lambda>v. prefix p (name v))"
    by (auto simp: indexOf_zero)
  then show ?thesis unfolding completion_filter_def by simp
qed

lemma flatten_preorder:
  "spans_present t \<Longrightarrow> visit_item t acc = (acc @ preorder t, None)"
  "list_all spans_present ts \<Longrightarrow> forEach_items ts acc = (acc @ concat (map preorder ts), None)"
  by (induction t acc and ts acc rule: visit_item_forEach_items.induct)
     (auto split: option.splits)

lemma flatten_status:
  "snd (visit_item t acc) = (if spans_present t then None else Some TypeError)"
  "snd (forEach_items ts acc) = (if list_all spans_present ts then None else Some TypeError)"
proof (induction t acc and ts acc rule: visit_item_forEach_items.induct)
  case (1 text' kind' spans childItems highlights)
  then show ?case by (auto split: option.splits)
next
  case (2 highlights)
  then show ?case by simp
next
  case (3 item items highlights)
  obtain hs st where v: "visit_item item highlights = (hs, st)"
    by (cases "visit_item item highlights")
  with 3(1) have st: "st = (if spans_present item then None else Some TypeError)"
    by simp
  show ?case
  proof (cases st)
    case None
    with 3(2)[of hs st] v st show ?thesis by (simp split: if_splits)
  next
    case (Some e)
    with v st show ?thesis by (simp split: if_splits)
  qed
qed

lemma flatten_extends:
  "\<exists>es. fst (visit_item t acc) = acc @ es \<and> prefix es (preorder t)"
  "\<exists>es. fst (forEach_items ts acc) = acc @ es \<and> prefix es (concat (map preorder ts))"
proof (induction t acc and ts acc rule: visit_item_forEach_items.induct)
  case (1 text' kind' spans childItems highlights)
  show ?case
  proof (cases spans)
    case None
    then show ?thesis by simp
  next
    case (Some ss)
    note ss = this
    show ?thesis
    proof (cases childItems)
      case None
      with ss show ?thesis by simp
    next
      case (Some cs)
      from 1[OF ss refl Some] obtain es where
        "fst (forEach_items cs (highlights @
            map (\<lambda>s. \<lparr>highlightKind = js_get kindToHighlightGroup kind', token = text'\<rparr>) ss))
          = (highlights @
            map (\<lambda>s. \<lparr>highlightKind = js_get kindToHighlightGroup kind', token = text'\<rparr>) ss) @ es"
        and "prefix es (concat (map preorder cs))"
        by blast
      with ss Some show ?thesis by simp
    qed
  qed
next
  case (2 highlights)
  then show ?case by simp
next
  case (3 item items highlights)
  obtain hs st where v: "visit_item item highlights = (hs, st)"
    by (cases "visit_item item highlights")
  from 3(1) v obtain es where es: "hs = highlights @ es" "prefix es (preorder item)"
    by auto
  show ?case
  proof (cases st)
    case None
    from 3(2)[of hs st] v None obtain es' where
      es': "fst (forEach_items items hs) = hs @ es'" "prefix es' (concat (map preorder items))"
      by auto
    have full: "es = preorder item"
      using flatten_status(1)[of item highlights] flatten_preorder(1)[of item highlights] v None es
      by (simp split: if_splits)
    show ?thesis using v None es es' full by simp
  next
    case (Some e)
    with v es show ?thesis by (auto intro: prefix_order.trans)
  qed
qed


lemma takeWhile_append_all:
  "list_all P xs \<Longrightarrow> takeWhile P (xs @ ys) = xs @ takeWhile P ys"
  by (induction xs) auto

lemma takeWhile_append_not_all:
  "\<not> list_all P xs \<Longrightarrow> takeWhile P (xs @ ys) = takeWhile P xs"
  by (induction xs) auto

lemma takeWhile_all: "list_all P xs \<Longrightarrow> takeWhile P xs = xs"
  by (induction xs) auto

lemma flatten_exact:
  "visit_item t acc =
     (acc @ concat (map own_entries (takeWhile has_spans (nodes_preorder t))),
      if list_all has_spans (nodes_preorder t) then None else Some TypeError)"
  "forEach_items ts acc =
     (acc @ concat (map own_entries (takeWhile has_spans (concat (map nodes_preorder ts)))),
      if list_all has_spans (concat (map nodes_preorder ts)) then None else Some TypeError)"
proof (induction t acc and ts acc rule: visit_item_forEach_items.induct)
  case (1 text' kind' spans childItems highlights)
  show ?case
  proof (cases spans)
    case None
    then show ?thesis by simp
  next
    case (Some ss)
    note ss = this
    show ?thesis
    proof (cases childItems)
      case None
      with ss show ?thesis by simp
    next
      case (Some cs)
      from 1[OF ss refl Some] ss Some show ?thesis by simp
    qed
  qed
next
  case (2 highlights)
  then show ?case by simp
next
  case (3 item items highlights)
  show ?case
  proof (cases "list_all has_spans (nodes_preorder item)")
    case True
    with 3(1) have v: "visit_item item highlights =
        (highlights @ concat (map own_entries (nodes_preorder item)), None)"
      by (simp add: takeWhile_all)
    from 3(2)[OF v[symmetric] refl] v True show ?thesis
      by (simp add: takeWhile_append_all)
  next
    case False
    with 3(1) have v: "visit_item item highlights =
        (highlights @ concat (map own_entries (takeWhile has_spans (nodes_preorder item))),
         Some TypeError)"
      by simp
    with False show ?thesis by (simp add: takeWhile_append_not_all)
  qed
qed

lemma spans_present_nodes:
  "spans_present t \<longleftrightarrow> list_all has_spans (nodes_preorder t)"
proof (induction t rule: spans_present.induct)
  case (1 text' kind' spans childItems)
  then show ?case
    by (cases childItems) (auto simp: list_all_iff)
qed

lemma spans_present_forest:
  "list_all spans_present forest \<longleftrightarrow> list_all has_spans (concat (map nodes_preorder forest))"
  by (induction forest) (auto simp: spans_present_nodes)

section \<open>The dispatcher\<close>

lemma sendRequest_registered:
  assumes "requestHandler c = Plain m"
  shows "sendRequest (handleRequest c requestName h) fileName requestName args w
           = h requestName args w"
  using assms by (simp add: sendRequest_def handleRequest_def)

lemma sendRequest_unregistered:
  assumes "requestHandler c = Plain m" and "m requestName = None"
    and "requestName \<notin> set object_prototype_members"
  shows "sendRequest c fileName requestName args w =
           Returns (Rejected (StringValue ''Not implemented'')) w"
  using assms by (simp add: sendRequest_def)

lemma sendNotification_registered:
  assumes "notificationHandler c = Plain m"
  shows "sendNotification (handleNotification c notificationName h) fileName notificationName args w
           = h notificationName args w"
  using assms by (simp add: sendNotification_def handleNotification_def)

lemma sendNotification_unregistered:
  assumes "notificationHandler c = Plain m" and "m notificationName = None"
    and "notificationName \<notin> set object_prototype_members"
  shows "sendNotification c fileName notificationName args w = Returns () w"
  using assms by (simp add: sendNotification_def)

lemma notify_unsubscribed:
  assumes "subscriptions c = Plain m" and "m notificationName = None"
    and "notificationName \<notin> set object_prototype_members"
  shows "notify c notificationName payload w = Returns () w"
  using assms by (simp add: notify_def)

text \<open>
  C1. A request name with a registered handler gets that handler's outcome
  (\<open>sendRequest_registered\<close>), and a name that is neither registered nor a member of
  \<open>Object.prototype\<close> gets the rejection \<^verbatim>\<open>"Not implemented"\<close>
  (\<open>sendRequest_unregistered\<close>). The claim says so of every name with no registered
  handler, and that \<open>sendRequest\<close> never throws for such a name. On a client with no
  handler at all, the name \<^verbatim>\<open>__proto__\<close> reads the prototype object, which is truthy, and
  calling it throws a \<open>TypeError\<close> out of \<open>sendRequest\<close>; the name \<^verbatim>\<open>toString\<close> calls the
  inherited built-in in the place of a handler. Neither is the rejection.
\<close>

theorem sendRequest_inherited_name:
  "sendRequest new_client fileName ''__proto__'' args w = Throws TypeError w
   \<and> sendRequest new_client fileName ''toString'' args w = CallsBuiltin ''toString'' w"
  by (simp add: sendRequest_def new_client_def empty_dict_def object_prototype_members_def)

section \<open>Diagnostics\<close>

text \<open>
  C2. For every semantic-diagnostics event the handler calls \<open>setErrors\<close> with one entry
  per backend diagnostic, in order: the start and end lines are the backend's lines
  minus 1, the start and end offsets are the backend's, the message is the diagnostic's
  text and the severity is 1, whatever the backend's category. An event without a
  \<open>diagnostics\<close> field yields no entry.
\<close>

theorem semanticDiag_conversion:
  fixes ev :: DiagnosticEvent
  defines "ds \<equiv> case diagnostics ev of None \<Rightarrow> [] | Some ds \<Rightarrow> ds"
  shows "\<exists>errors. semanticDiag ev = SetErrors ''typescript-compiler'' (event_file ev) errors
           \<and> length errors = length ds
           \<and> (\<forall>i < length ds.
                 pos_line (range_start (err_range (errors ! i))) = loc_line (diag_start (ds ! i)) - 1
               \<and> pos_line (range_end (err_range (errors ! i))) = loc_line (diag_end (ds ! i)) - 1
               \<and> character (range_start (err_range (errors ! i))) = loc_offset (diag_start (ds ! i))
               \<and> character (range_end (err_range (errors ! i))) = loc_offset (diag_end (ds ! i))
               \<and> message (errors ! i) = diag_text (ds ! i)
               \<and> severity (errors ! i) = 1)"
  by (simp add: semanticDiag_def ds_def convert_diagnostic_def Position_create_def
        Range_create_def)

text \<open>The instance of the specification: a backend start line 5 becomes the editor
  line 4, an end line 6 becomes 5.\<close>

theorem semanticDiag_conversion_witness:
  "semanticDiag example_diagnostics =
     SetErrors ''typescript-compiler'' ''a.ts''
       [\<lparr>err_type = None, message = str ''Cannot find name'',
         err_range = \<lparr>range_start = \<lparr>pos_line = 4, character = 3\<rparr>,
                      range_end = \<lparr>pos_line = 5, character = 9\<rparr>\<rparr>,
         severity = 1\<rparr>]"
  using semanticDiag_conversion[of example_diagnostics]
  by (simp add: semanticDiag_def example_diagnostics_def convert_diagnostic_def
        Position_create_def Range_create_def)

section \<open>Completion\<close>

text \<open>
  C3, as amended. A query with column at most 1 resolves to an empty completion list
  and makes no backend call. A query with a larger column, whose line is in the mirror
  and has at least \<open>column - 1\<close> code units, takes as prefix the longest run of
  letters and underscores that ends just before the cursor; when the prefix is empty
  and the character at the stopping position is not a full stop, it resolves to an
  empty list without a backend call; otherwise it calls the backend with the original
  position and the prefix, keeps the entries whose name starts with the prefix (all of
  them when it is empty) and maps each to its label and its looked-up kind.
\<close>

theorem getCompletions_prefix:
  assumes "column pos \<le> 1 \<or>
           (elems buf (line pos - 1) = Some l \<and> column pos - 1 \<le> int (length l))"
  shows "getCompletions host buf pos w =
    (if column pos \<le> 1 then Returns (Resolved \<lparr>base = None, completions = []\<rparr>) w
     else
       let currentPrefix = rev (takeWhile matches_identifier (rev (take (nat (column pos - 1)) l)));
           stop = column pos - 2 - int (length currentPrefix)
       in if currentPrefix = [] \<and> char_at l stop \<noteq> Some full_stop
          then Returns (Resolved \<lparr>base = Some currentPrefix, completions = []\<rparr>) w
          else Returns
                 (promise_then (host (bufferFullPath pos) (line pos) (column pos) currentPrefix)
                    (\<lambda>val. \<lparr>base = Some currentPrefix,
                            completions =
                              map (\<lambda>v. \<lparr>label = name v,
                                         itemKind = convertTypeScriptKindToCompletionItemKind (kind v)\<rparr>)
                                (filter (\<lambda>v. prefix currentPrefix (name v)) val)\<rparr>))
                 (w @ [GetCompletions (bufferFullPath pos) (line pos) (column pos) currentPrefix]))"
proof (cases "column pos \<le> 1")
  case True
  then show ?thesis by (simp add: getCompletions_def)
next
  case False
  with assms have l: "elems buf (line pos - 1) = Some l"
    and len: "nat (column pos - 2 + 1) \<le> length l" by auto
  have n: "nat (column pos - 2 + 1) = nat (column pos - 1)" by simp
  have scan: "prefix_scan (Some l) (column pos - 2) [] =
      Inr (column pos - 2 - int (length (takeWhile matches_identifier (rev (take (nat (column pos - 1)) l)))),
           rev (takeWhile matches_identifier (rev (take (nat (column pos - 1)) l))))"
    using prefix_scan_line[OF _ len, of "[]"] False unfolding n by simp
  show ?thesis
    unfolding getCompletions_def Let_def l scan
    using False
    by (simp add: index_line_def completion_filter_prefix)
qed

text \<open>The instance of the specification: the line \<^verbatim>\<open>foo.ba\<close> with the cursor at column 7
  gives the prefix \<^verbatim>\<open>ba\<close>; of the backend's entries \<^verbatim>\<open>bar\<close>, \<^verbatim>\<open>foo\<close>, \<^verbatim>\<open>abba\<close> and \<^verbatim>\<open>ba\<close>
  the first and the last are kept.\<close>

theorem getCompletions_prefix_witness:
  "getCompletions example_completion_host (array_of_list [str ''foo.ba'']) (example_position 1 7) []
     = Returns
         (Resolved \<lparr>base = Some (str ''ba''),
                    completions = [\<lparr>label = str ''bar'', itemKind = Kind CK_Method\<rparr>,
                                   \<lparr>label = str ''ba'', itemKind = Null\<rparr>]\<rparr>)
         [GetCompletions ''a.ts'' 1 7 (str ''ba'')]"
  using getCompletions_prefix[of "example_position 1 7" "array_of_list [str ''foo.ba'']" "str ''foo.ba''"
          example_completion_host "[]"]
  by (simp add: Let_def example_position_def array_of_list_def str_def matches_identifier_def
        example_completion_host_def example_entries_def char_at_def full_stop_def
        convertTypeScriptKindToCompletionItemKind_def typeScriptKindToCompletionKind_def
        object_prototype_members_def)

text \<open>C3 as stated speaks of every query. With nothing in the mirror, the query at
  line 1, column 2 neither resolves to an empty list nor calls the backend: it throws.\<close>

theorem getCompletions_missing_line:
  "getCompletions example_completion_host (array_of_list []) (example_position 1 2) []
     = Throws TypeError []"
  by (subst getCompletions_def, subst prefix_scan.simps)
     (simp add: example_position_def array_of_list_def index_line_def)

section \<open>Symbol tree\<close>

text \<open>On a tree in which every node has its \<open>spans\<close>, the traversal appends the
  pre-order sequence of entries to the accumulator and does not fail.\<close>

lemma getHighlights_preorder:
  assumes "list_all spans_present forest"
  shows "getHighlightsFromNavTree (Some forest) acc = (acc @ concat (map preorder forest), None)"
  using assms by (simp add: getHighlightsFromNavTree_def flatten_preorder)

text \<open>The instance of the specification: a class with one method, one span each,
  gives two entries, the class first.\<close>

lemma getHighlights_class_with_method:
  "getHighlightsFromNavTree (Some [class_with_method]) [] =
     ([\<lparr>highlightKind = Value SK_Class, token = str ''Foo''\<rparr>,
       \<lparr>highlightKind = Value SK_Function, token = str ''bar''\<rparr>], None)"
  by (simp add: getHighlightsFromNavTree_def class_with_method_def kindToHighlightGroup_def)

text \<open>
  C4. The traversal is the pre-order one (\<open>getHighlights_preorder\<close>), but the
  \<open>highlightKind\<close> of a node whose kind is not in the table is not always
  \<^verbatim>\<open>undefined\<close>: the table is a plain object, and for the kind \<^verbatim>\<open>constructor\<close>, which the
  backend reports for the constructor of a class, the read finds the inherited
  \<open>Object.prototype.constructor\<close>.
\<close>

theorem getHighlights_constructor_kind:
  "getHighlightsFromNavTree (Some [class_with_constructor]) [] =
     ([\<lparr>highlightKind = Value SK_Class, token = str ''Foo''\<rparr>,
       \<lparr>highlightKind = Inherited ''constructor'', token = str ''constructor''\<rparr>], None)"
  by (simp add: getHighlightsFromNavTree_def class_with_constructor_def kindToHighlightGroup_def
        object_prototype_members_def)

text \<open>
  C5, as amended. A node without \<open>spans\<close> ends the traversal with a \<open>TypeError\<close> when
  it is reached: the accumulator then holds, after what it held before, the entries
  of exactly the nodes that precede that node in pre-order, and nothing of the node
  itself, of its children or of any later node. The traversal fails exactly when some
  node of the tree lacks its \<open>spans\<close>. When every node has its \<open>spans\<close> (an empty list
  gives no entry) it does not fail and emits the whole pre-order sequence.
\<close>

theorem getHighlights_spans_absent:
  "getHighlightsFromNavTree (Some forest) acc =
     (acc @ entries_before_fault forest,
      if list_all has_spans (concat (map nodes_preorder forest)) then None else Some TypeError)
   \<and> snd (getHighlightsFromNavTree (Some forest) acc) =
      (if list_all spans_present forest then None else Some TypeError)
   \<and> (\<exists>es. fst (getHighlightsFromNavTree (Some forest) acc) = acc @ es
            \<and> prefix es (concat (map preorder forest)))
   \<and> (list_all spans_present forest \<longrightarrow>
        fst (getHighlightsFromNavTree (Some forest) acc) = acc @ concat (map preorder forest))"
  using flatten_exact(2)[of forest acc] flatten_status(2)[of forest acc]
    flatten_extends(2)[of forest acc] flatten_preorder(2)[of forest acc]
  by (simp add: getHighlightsFromNavTree_def entries_before_fault_def)

text \<open>An instance with an accumulator that is not empty: the class has a span, its first
  child lacks \<open>spans\<close>. The old entry and the entry of the class are in the accumulator,
  and neither the second child nor the second tree has been visited.\<close>

theorem getHighlights_spans_absent_witness:
  "getHighlightsFromNavTree (Some forest_fault_in_child)
      [\<lparr>highlightKind = Undefined, token = str ''old''\<rparr>]
     = ([\<lparr>highlightKind = Undefined, token = str ''old''\<rparr>,
         \<lparr>highlightKind = Value SK_Class, token = str ''Foo''\<rparr>], Some TypeError)
   \<and> getHighlightsFromNavTree (Some [class_with_method]) [] =
       ([\<lparr>highlightKind = Value SK_Class, token = str ''Foo''\<rparr>,
         \<lparr>highlightKind = Value SK_Function, token = str ''bar''\<rparr>], None)"
  using getHighlights_spans_absent[of forest_fault_in_child
          "[\<lparr>highlightKind = Undefined, token = str ''old''\<rparr>]"]
    getHighlights_spans_absent[of "[class_with_method]" "[]"]
  by (simp add: forest_fault_in_child_def class_with_method_def entries_before_fault_def
        kindToHighlightGroup_def)

text \<open>C5 as stated: a node without \<open>spans\<close> gives no entry and the other nodes are
  still visited. Here the first node lacks its \<open>spans\<close>: the traversal fails, and the
  second node, which has a span, gives no entry.\<close>

theorem getHighlights_missing_spans:
  "getHighlightsFromNavTree (Some forest_without_spans) [] = ([], Some TypeError)"
  by (simp add: getHighlightsFromNavTree_def forest_without_spans_def)

section \<open>Buffer events\<close>

text \<open>
  C6, as amended. An incremental update with a non-empty path replaces the entry at
  index \<open>lineNumber - 1\<close> of the one shared buffer, leaves every other entry as it was,
  and calls \<open>changeLineInFile\<close> on the backend at once; the buffer is the mirror of
  every document, whatever the path of the event. An update with an empty path does
  nothing.
\<close>

theorem incremental_update_shared_mirror:
  "(bufferFullPath (eventContext args) \<noteq> [] \<longrightarrow>
      elems (lastBuffer (on_buffer_update_incremental s args)) (lineNumber args - 1)
        = Some (bufferLine args)
      \<and> (\<forall>i. i \<noteq> lineNumber args - 1 \<longrightarrow>
             elems (lastBuffer (on_buffer_update_incremental s args)) i = elems (lastBuffer s) i)
      \<and> (\<forall>p. mirror_of (on_buffer_update_incremental s args) p
                = array_set (lastBuffer s) (lineNumber args - 1) (bufferLine args))
      \<and> host_calls (on_buffer_update_incremental s args) =
          host_calls s @ [ChangeLineInFile (bufferFullPath (eventContext args)) (lineNumber args)
                            (bufferLine args)])
   \<and> (bufferFullPath (eventContext args) = [] \<longrightarrow> on_buffer_update_incremental s args = s)"
  by (simp add: on_buffer_update_incremental_def mirror_of_def array_set_def Let_def)

theorem incremental_update_shared_mirror_witness:
  "elems (lastBuffer (on_buffer_update_incremental
            (on_buffer_update [10] initial_state example_full_update) example_line_update)) 0
     = Some (str ''y'')
   \<and> host_calls (on_buffer_update_incremental
            (on_buffer_update [10] initial_state example_full_update) example_line_update)
     = [OpenFile ''a.ts'', UpdateFileThrottled ''a.ts'' (str ''x''),
        ChangeLineInFile ''b.ts'' 1 (str ''y'')]"
  using incremental_update_shared_mirror
    [of example_line_update "on_buffer_update [10] initial_state example_full_update"]
  by (simp add: on_buffer_update_def initial_state_def example_full_update_def
        example_line_update_def lastOpenFile_def Let_def)

text \<open>C6 as stated: the mirror of every other document is unchanged. After a full
  update of \<^verbatim>\<open>a.ts\<close> with the one line \<^verbatim>\<open>x\<close>, an incremental update of line 1 of
  \<^verbatim>\<open>b.ts\<close> changes line 1 of the mirror of \<^verbatim>\<open>a.ts\<close> to \<^verbatim>\<open>y\<close>.\<close>

theorem incremental_update_other_document:
  "elems (mirror_of (on_buffer_update [10] initial_state example_full_update) ''a.ts'') 0
     = Some (str ''x'')
   \<and> elems (mirror_of
        (on_buffer_update_incremental
           (on_buffer_update [10] initial_state example_full_update) example_line_update)
        ''a.ts'') 0 = Some (str ''y'')"
  by (simp add: mirror_of_def on_buffer_update_def on_buffer_update_incremental_def
        initial_state_def example_full_update_def example_line_update_def lastOpenFile_def
        array_of_list_def array_set_def Let_def)

text \<open>Every full update with a non-empty path calls \<open>openFile\<close>: the marker
  \<open>lastOpenFile\<close> is a constant \<^verbatim>\<open>null\<close>, which no path equals.\<close>

lemma buffer_update_opens:
  assumes "bufferFullPath (eventContext args) \<noteq> []"
  shows "host_calls (on_buffer_update EOL s args) =
           host_calls s @ [OpenFile (bufferFullPath (eventContext args)),
                           UpdateFileThrottled (bufferFullPath (eventContext args))
                             (join EOL (bufferLines args))]"
  using assms by (simp add: on_buffer_update_def lastOpenFile_def Let_def)

text \<open>
  C7. The second of two consecutive full updates of the same path should issue no
  open call. It does: the handler compares the path with \<open>lastOpenFile\<close> and never
  stores a path there, so both updates of \<^verbatim>\<open>a.ts\<close> call \<open>openFile\<close>.
\<close>

theorem buffer_update_reopens:
  "host_calls (on_buffer_update [10] (on_buffer_update [10] initial_state example_full_update)
      example_full_update)
   = [OpenFile ''a.ts'', UpdateFileThrottled ''a.ts'' (str ''x''),
      OpenFile ''a.ts'', UpdateFileThrottled ''a.ts'' (str ''x'')]"
  by (simp add: on_buffer_update_def initial_state_def example_full_update_def
        lastOpenFile_def Let_def)

section \<open>Notifications\<close>

text \<open>
  C8. A notification name with a registered handler gets that handler's outcome
  (\<open>sendNotification_registered\<close>); a name that is neither registered nor a member of
  \<open>Object.prototype\<close> is a silent no-operation, for \<open>sendNotification\<close> and for \<open>notify\<close>
  (\<open>sendNotification_unregistered\<close>, \<open>notify_unsubscribed\<close>). The claim says so of every
  name. On a client with nothing registered, \<open>sendNotification\<close> with the name
  \<^verbatim>\<open>__proto__\<close> calls the prototype object and throws, and \<open>notify\<close> with the name
  \<^verbatim>\<open>toString\<close> calls the missing \<^verbatim>\<open>dispatch\<close> of the inherited built-in and throws.
\<close>

theorem sendNotification_inherited_name:
  "sendNotification new_client fileName ''__proto__'' args w = Throws TypeError w
   \<and> notify new_client ''toString'' payload w = Throws TypeError w"
  by (simp add: sendNotification_def notify_def new_client_def empty_dict_def
        object_prototype_members_def)

section \<open>Hover\<close>

text \<open>
  C9, as amended. A \<^verbatim>\<open>textDocument/hover\<close> request with the zero-based position
  \<open>(line, character)\<close>, whose document URI decodes to a path, makes one backend
  quick-info call, at \<open>(line + 1, character + 1)\<close>; when the backend resolves, the answer
  is \<open>contents = [displayString, documentation]\<close>, and when it rejects, the request
  rejects with the same reason.
\<close>

theorem hover_one_based:
  assumes "unwrapFileUriPath decode platform (textDocument_uri payload) = Inr filePath"
  shows "\<exists>p. sendRequest (hover_client decode platform host) fileName ''textDocument/hover'' payload w
            = Returns p (w @ [GetQuickInfo filePath (pos_line (position payload) + 1)
                                (character (position payload) + 1)])
          \<and> (\<forall>val. host filePath (pos_line (position payload) + 1)
                      (character (position payload) + 1) = Resolved val
                 \<longrightarrow> p = Resolved \<lparr>contents = [displayString val, documentation val]\<rparr>)
          \<and> (\<forall>r. host filePath (pos_line (position payload) + 1)
                      (character (position payload) + 1) = Rejected r
                 \<longrightarrow> p = Rejected r)"
  using assms
  by (auto simp: hover_client_def sendRequest_def handleRequest_def new_client_def empty_dict_def
        getQuickInfo_def)

theorem hover_one_based_witness:
  "sendRequest (hover_client identity_decode ''linux'' example_quick_info_host) ''a.ts''
      ''textDocument/hover''
      \<lparr>textDocument_uri = ''file:///src/b.ts'', position = \<lparr>pos_line = 4, character = 2\<rparr>\<rparr> []
     = Returns (Resolved \<lparr>contents = [str ''const x: number'', str ''a number'']\<rparr>)
         [GetQuickInfo ''/src/b.ts'' 5 3]"
  using hover_one_based[of identity_decode "''linux''"
      "\<lparr>textDocument_uri = ''file:///src/b.ts'', position = \<lparr>pos_line = 4, character = 2\<rparr>\<rparr>"
      "''/src/b.ts''" example_quick_info_host "''a.ts''" "[]"]
  by (auto simp: unwrapFileUriPath_def getFilePrefix_def split_second_def
        after_first.simps before_first.simps identity_decode_def example_quick_info_host_def)

text \<open>C9 as stated: the call is made at \<open>(line, character + 1)\<close>. For the position
  \<open>(0, 0)\<close> the call is made at \<open>(1, 1)\<close>, not at \<open>(0, 1)\<close>.\<close>

theorem hover_line_is_incremented:
  "sendRequest (hover_client identity_decode ''linux'' example_quick_info_host) ''a.ts''
      ''textDocument/hover'' example_hover []
     = Returns (Resolved \<lparr>contents = [str ''const x: number'', str ''a number'']\<rparr>)
         [GetQuickInfo ''/a.ts'' 1 1]
   \<and> sendRequest (hover_client identity_decode ''linux'' example_quick_info_host) ''a.ts''
      ''textDocument/hover'' example_hover []
     \<noteq> Returns (Resolved \<lparr>contents = [str ''const x: number'', str ''a number'']\<rparr>)
         [GetQuickInfo ''/a.ts'' 0 1]"
  by (simp add: hover_client_def sendRequest_def handleRequest_def new_client_def empty_dict_def
        getQuickInfo_def unwrapFileUriPath_def getFilePrefix_def split_second_def
        after_first.simps before_first.simps identity_decode_def example_hover_def
        example_quick_info_host_def)

section \<open>Where the prefix scan faults\<close>

text \<open>
  C10. For a query with column at least 2: when the mirror has no line at index
  \<open>line - 1\<close>, or that line has fewer than \<open>column - 1\<close> code units, \<open>getCompletions\<close>
  throws a \<open>TypeError\<close> and resolves to nothing; when the line is there and has at
  least \<open>column - 1\<close> code units, it returns.
\<close>

theorem getCompletions_faults:
  assumes "2 \<le> column pos"
  shows "((elems buf (line pos - 1) = None
           \<or> (\<exists>l. elems buf (line pos - 1) = Some l \<and> int (length l) < column pos - 1))
          \<longrightarrow> getCompletions host buf pos w = Throws TypeError w)
       \<and> (\<not> (elems buf (line pos - 1) = None
           \<or> (\<exists>l. elems buf (line pos - 1) = Some l \<and> int (length l) < column pos - 1))
          \<longrightarrow> (\<exists>v w'. getCompletions host buf pos w = Returns v w'))"
proof (intro conjI impI)
  assume "elems buf (line pos - 1) = None
           \<or> (\<exists>l. elems buf (line pos - 1) = Some l \<and> int (length l) < column pos - 1)"
  then show "getCompletions host buf pos w = Throws TypeError w"
  proof
    assume "elems buf (line pos - 1) = None"
    then show ?thesis using assms
      by (subst getCompletions_def, subst prefix_scan.simps) (simp add: index_line_def)
  next
    assume "\<exists>l. elems buf (line pos - 1) = Some l \<and> int (length l) < column pos - 1"
    then show ?thesis using assms
      by (subst getCompletions_def, subst prefix_scan.simps)
         (auto simp: index_line_def char_at_def)
  qed
next
  assume "\<not> (elems buf (line pos - 1) = None
           \<or> (\<exists>l. elems buf (line pos - 1) = Some l \<and> int (length l) < column pos - 1))"
  then obtain l where l: "elems buf (line pos - 1) = Some l"
    and len: "nat (column pos - 2 + 1) \<le> length l"
    by (cases "elems buf (line pos - 1)") auto
  obtain stop currentPrefix where
    scan: "prefix_scan (Some l) (column pos - 2) [] = Inr (stop, currentPrefix)"
    using prefix_scan_line[OF _ len, of "[]"] assms by simp
  show "\<exists>v w'. getCompletions host buf pos w = Returns v w'"
    unfolding getCompletions_def Let_def l scan
    using assms
    by (cases "char_at l stop = Some full_stop") (simp_all add: index_line_def)
qed

theorem getCompletions_faults_witness:
  "getCompletions example_completion_host (array_of_list [str ''ab'']) (example_position 1 4) []
     = Throws TypeError []
   \<and> getCompletions example_completion_host (array_of_list [str ''ab'']) (example_position 2 2) []
     = Throws TypeError []
   \<and> (\<exists>v w'. getCompletions example_completion_host (array_of_list [str ''ab''])
                (example_position 1 3) [] = Returns v w')"
  using getCompletions_faults[of "example_position 1 4" "array_of_list [str ''ab'']"
          example_completion_host "[]"]
    getCompletions_faults[of "example_position 2 2" "array_of_list [str ''ab'']"
          example_completion_host "[]"]
    getCompletions_faults[of "example_position 1 3" "array_of_list [str ''ab'']"
          example_completion_host "[]"]
  by (simp add: example_position_def array_of_list_def str_def)

end
